theory Spec2Isabelle
  imports Complex_Main "HOL-Library.AList"
begin

section \<open>The IBSng backup bot (bot.py, main.py) as a state-passing model\<close>

text \<open>
  The program is a Python script: a polling thread calls \<open>run_backup_process\<close>, and
  Telegram handlers registered in \<open>main\<close> react to commands and documents. Every
  function below is the translation of the source function of the same name. What the
  source keeps in module globals, in the file system and in the per-chat dictionary is
  the record \<open>world\<close>; what it does to the outside (prints, subprocesses, Telegram API
  calls, threads it starts) is appended to the field \<open>effects\<close>, in order.

  What the outside answers is an explicit argument: the clock, the result of the backup
  script, of the upload, of the download, and the output of the restore process. The
  failures the source catches are branches of the model: an unreadable or malformed
  configuration file, a configuration write that fails before or after the file is
  opened, a backup script that exits non-zero or cannot be started, an upload that
  fails, an entry that cannot be removed, a backup directory that cannot be listed, a
  download, a local write, an acknowledging reply or a thread start that fails while a
  document is handled, a read from the restore process that raises. An exception the
  source does not catch leaves the function: the result is then \<open>Inl\<close> of the world as it
  is at that point.

  Modelling decisions, all visible in the definitions:
  \<^item> \<open>time.time()\<close> is a Python float; it is modelled as a real number, and the calls
    made during one run of a function return the same instant (\<open>clock\<close>).
  \<^item> The configuration is the JSON object of the four keys the program reads, with the
    value types the program expects; a key that is absent is \<open>None\<close>. The chat identifier
    is kept as the string \<open>str\<close> renders. In the world the configuration file, when it
    parses, holds such an object, and the global \<open>config\<close> is bound to one;
    \<open>load_config_any\<close> is \<open>load_config\<close> without that restriction.
  \<^item> The text of a message is a Python \<open>str\<close>: a list of characters, each an ASCII
    character or a character beyond ASCII with its Unicode class. Paths, file names and
    the output of processes are byte strings. Messages and log lines are constructors
    named after the variable or the wording of the source, with the values the source
    interpolates.
  \<^item> The file system is a finite association list from path to entry, with an entry
    for every regular file and every directory; a directory's listing is the entries
    directly under it.
  \<^item> The Telegram calls that the source makes outside a \<open>try\<close>, and in an \<open>except\<close>
    handler, are assumed to return.
  \<^item> Threads are not interleaved: starting one is an effect, and its body is a function
    of its own.
\<close>

subsection \<open>Python strings and paths\<close>

definition startswith :: "string \<Rightarrow> string \<Rightarrow> bool" where
  "startswith s p = (take (length p) s = p)"

definition endswith :: "string \<Rightarrow> string \<Rightarrow> bool" where
  "endswith s x = (length x \<le> length s \<and> drop (length s - length x) s = x)"

text \<open>\<open>s.split(sep)\<close> for a one-character separator: empty fields are kept.\<close>

fun split_at :: "char \<Rightarrow> string \<Rightarrow> string \<Rightarrow> string list" where
  "split_at sep cur [] = [cur]"
| "split_at sep cur (c # cs) =
     (if c = sep then cur # split_at sep [] cs else split_at sep (cur @ [c]) cs)"

definition split_sep :: "char \<Rightarrow> string \<Rightarrow> string list" where
  "split_sep sep s = split_at sep [] s"

text \<open>
  A character of a Python \<open>str\<close>: an ASCII character, or a character beyond ASCII, given
  by its code point and by what the Unicode database says of it: a decimal digit with
  its value (which \<open>int\<close> accepts, as ARABIC-INDIC DIGIT THREE), a digit that is not
  decimal (on which \<open>isdigit\<close> holds and \<open>int\<close> raises, as SUPERSCRIPT TWO), white space
  (as NEXT LINE, U+0085), or none of these.
\<close>

datatype unicode_class = Decimal_digit nat | Other_digit | White_space | No_class

datatype pychar = Ascii char | Beyond nat unicode_class

type_synonym pystr = "pychar list"

text \<open>\<open>c.isspace()\<close>; in ASCII the characters 9 to 13 and 28 to 32.\<close>

fun isspace :: "pychar \<Rightarrow> bool" where
  "isspace (Ascii c) =
     (let n = (of_char c :: nat) in (9 \<le> n \<and> n \<le> 13) \<or> (28 \<le> n \<and> n \<le> 32))"
| "isspace (Beyond code_point class) = (class = White_space)"

text \<open>\<open>s.split()\<close>: runs of white space separate the words, no empty word.\<close>

fun split_words :: "pystr \<Rightarrow> pystr \<Rightarrow> pystr list" where
  "split_words cur [] = (if cur = [] then [] else [cur])"
| "split_words cur (c # cs) =
     (if isspace c then (if cur = [] then split_words [] cs else cur # split_words [] cs)
      else split_words (cur @ [c]) cs)"

definition split :: "pystr \<Rightarrow> pystr list" where
  "split s = split_words [] s"

text \<open>The value of a character as a decimal digit, when it is one.\<close>

fun digit_value :: "pychar \<Rightarrow> nat option" where
  "digit_value (Ascii c) =
     (let n = (of_char c :: nat) in if 48 \<le> n \<and> n \<le> 57 then Some (n - 48) else None)"
| "digit_value (Beyond code_point (Decimal_digit v)) = Some v"
| "digit_value (Beyond code_point class) = None"

text \<open>\<open>c.isdigit()\<close>: a decimal digit or another digit.\<close>

fun is_digit :: "pychar \<Rightarrow> bool" where
  "is_digit (Beyond code_point Other_digit) = True"
| "is_digit c = (digit_value c \<noteq> None)"

text \<open>\<open>s.isdigit()\<close>: not empty and only digits.\<close>

definition isdigit :: "pystr \<Rightarrow> bool" where
  "isdigit s = (s \<noteq> [] \<and> list_all is_digit s)"

text \<open>\<open>int(s)\<close> for a string on which \<open>isdigit\<close> holds: its value in base ten, or \<open>None\<close>
  for the \<open>ValueError\<close> a digit that is not decimal raises. (The text of a Telegram
  message has at most 4096 characters, fewer than the 4300 digits from which \<open>int\<close>
  refuses a numeral.)\<close>

fun int_from :: "int \<Rightarrow> pystr \<Rightarrow> int option" where
  "int_from a [] = Some a"
| "int_from a (c # cs) =
     (case digit_value c of
        None \<Rightarrow> None
      | Some v \<Rightarrow> int_from (10 * a + int v) cs)"

definition int_of_digits :: "pystr \<Rightarrow> int option" where
  "int_of_digits s = (if s = [] then None else int_from 0 s)"

text \<open>\<open>str(n)\<close> for a Python int.\<close>

fun digits :: "nat \<Rightarrow> string" where
  "digits n = (if n < 10 then [''0123456789'' ! n]
               else digits (n div 10) @ [''0123456789'' ! (n mod 10)])"

definition str :: "int \<Rightarrow> string" where
  "str i = (if i < 0 then CHR ''-'' # digits (nat (- i)) else digits (nat i))"

text \<open>\<open>str(x)\<close> for a value that is a string or \<open>None\<close>.\<close>

definition str_opt :: "string option \<Rightarrow> string" where
  "str_opt x = (case x of None \<Rightarrow> ''None'' | Some s \<Rightarrow> s)"

text \<open>Truthiness of a value that is a string or \<open>None\<close>.\<close>

definition truthy :: "string option \<Rightarrow> bool" where
  "truthy x = (case x of None \<Rightarrow> False | Some s \<Rightarrow> s \<noteq> [])"

text \<open>\<open>os.path.join(a, b)\<close> of posixpath.\<close>

definition path_join :: "string \<Rightarrow> string \<Rightarrow> string" where
  "path_join a b =
     (if startswith b ''/'' then b
      else if a = [] \<or> endswith a ''/'' then a @ b
      else a @ ''/'' @ b)"

text \<open>
  The location a path denotes: its components after \<open>.\<close> and \<open>..\<close> are resolved from the
  root (symbolic links apart), as \<open>os.path.normpath\<close> does for an absolute path.
\<close>

fun resolve_components :: "string list \<Rightarrow> string list \<Rightarrow> string list" where
  "resolve_components stack [] = stack"
| "resolve_components stack (c # cs) =
     (if c = [] \<or> c = ''.'' then resolve_components stack cs
      else if c = ''..'' then resolve_components (butlast stack) cs
      else resolve_components (stack @ [c]) cs)"

definition location :: "string \<Rightarrow> string list" where
  "location p = resolve_components [] (split_sep CHR ''/'' p)"

subsection \<open>Settings\<close>

definition BACKUP_DIR :: string where
  "BACKUP_DIR = ''/tmp/ibsng_backup_files''"

definition RETENTION_DAYS :: int where
  "RETENTION_DAYS = 3"

definition POLL_INTERVAL_HOURS :: int where
  "POLL_INTERVAL_HOURS = 1"

definition TEMP_DIR :: string where
  "TEMP_DIR = ''/tmp/ibsng_restore''"

text \<open>A path denotes a location under the temporary directory.\<close>

definition under_temp_dir :: "string \<Rightarrow> bool" where
  "under_temp_dir p =
     (let d = location TEMP_DIR; l = location p
      in length d < length l \<and> take (length d) l = d)"

subsection \<open>Configuration, messages, effects, the world\<close>

record config =
  bot_token :: "string option"
  chat_id :: "string option"
  last_backup :: "real option"
  min_interval_hours :: "int option"

definition empty_config :: config where
  "empty_config = \<lparr>bot_token = None, chat_id = None, last_backup = None,
                    min_interval_hours = None\<rparr>"

text \<open>What is at \<open>CONFIG_FILE\<close>: nothing, something \<open>open\<close> or \<open>json.load\<close> raises on (an
  unreadable file, an empty or truncated one, text that is not JSON), or a JSON
  object.\<close>

datatype config_store = Missing | Malformed | Json_object config

text \<open>What writing a file does: it succeeds; \<open>open\<close> raises and the file is as it was;
  or the write raises after \<open>open\<close> has truncated the file, a number of bytes having
  reached it.\<close>

datatype write_outcome = Written | Cannot_open | Failed_after_open nat

text \<open>An entry of the file system, a regular file or a directory: the bytes
  \<open>os.path.getsize\<close> counts, its modification time, and whether \<open>os.remove\<close> succeeds on
  it, which it never does on a directory.\<close>

record fs_entry =
  contents :: string
  st_mtime :: real
  deletable :: bool

type_synonym file_system = "(string \<times> fs_entry) list"

text \<open>The lines the program prints and the messages it sends, by the name of the
  variable or the wording of the source.\<close>

datatype msg =
    Error_reading_config_file
  | Error_saving_config_file
  | Backup_sent_to_telegram
  | Error_sending_to_telegram
  | Last_backup_was_less_than int
  | Time_remaining int int
  | Starting_backup_process
  | Backup_created string nat
  | Sending_file_to_telegram
  | Telegram_send_failed
  | Telegram_settings_not_found
  | Deleting_local_backup_file string
  | Local_backup_file_deleted
  | Error_deleting_local_backup_file string
  | Deleting_backups_older_than int
  | Deleted_old_file string
  | Old_backup_cleanup_completed
  | Backup_file_not_created
  | Error_executing_backup_script
  | Error_in_backup_process
  | Temporary_file_deleted string
  | Error_deleting_temporary_file
  | unauthorized_msg
  | start_msg
  | backup_error_msg
  | status_msg "(real \<times> int \<times> int) option" int int
  | help_msg
  | value_error_msg
  | success_msg int
  | save_error_msg
  | guide_msg
  | cancel_msg
  | no_operation_msg
  | invalid_format_msg
  | start_restore_msg string nat
  | download_error_msg
  | Code_block string
  | Stderr_block string
  | restore_success_msg
  | restore_error_msg int
  | restore_exception_msg

datatype thread =
    run_backup_and_notify_thread int
  | run_restore_process_thread string int

datatype effect =
    Print msg
  | Run_backup_script
  | Curl_send_document string string string
  | Reply_to int msg
  | Send_message int msg
  | Get_file string
  | Download_file string
  | Popen_restore_script string
  | Thread_start thread

text \<open>A value of the dictionary \<open>user_states\<close>: the string \<open>'waiting_restore'\<close> or \<open>None\<close>.\<close>

datatype user_state = waiting_restore | py_None

record world =
  config_file :: config_store
  config_write :: write_outcome
  global_config :: config
  global_bot_token :: "string option"
  global_chat_id :: "string option"
  MIN_INTERVAL_HOURS :: int
  user_states :: "int \<rightharpoonup> user_state"
  files :: "file_system"
  backup_dir_listable :: bool
  effects :: "effect list"

definition emit :: "effect \<Rightarrow> world \<Rightarrow> world" where
  "emit e w = w\<lparr>effects := effects w @ [e]\<rparr>"

subsection \<open>The file system\<close>

definition path_exists :: "string \<Rightarrow> file_system \<Rightarrow> bool" where
  "path_exists p fs = (map_of fs p \<noteq> None)"

definition getsize :: "string \<Rightarrow> file_system \<Rightarrow> nat option" where
  "getsize p fs = map_option (\<lambda>f. length (contents f)) (map_of fs p)"

definition getmtime :: "string \<Rightarrow> file_system \<Rightarrow> real option" where
  "getmtime p fs = map_option st_mtime (map_of fs p)"

text \<open>\<open>os.remove(p)\<close>: \<open>None\<close> is the \<open>OSError\<close> (no such entry, a directory, or a removal
  that is refused).\<close>

definition os_remove :: "string \<Rightarrow> file_system \<Rightarrow> file_system option" where
  "os_remove p fs =
     (case map_of fs p of
        None \<Rightarrow> None
      | Some f \<Rightarrow> if deletable f then Some (AList.delete p fs) else None)"

definition write_file :: "string \<Rightarrow> fs_entry \<Rightarrow> file_system \<Rightarrow> file_system" where
  "write_file p f fs = AList.update p f fs"

text \<open>The names \<open>os.listdir(d)\<close> returns: the entries directly under \<open>d\<close>, regular files
  and directories alike.\<close>

definition child_name :: "string \<Rightarrow> string \<Rightarrow> string option" where
  "child_name d p =
     (let n = drop (length d + 1) p
      in if take (length d + 1) p = d @ ''/'' \<and> n \<noteq> [] \<and> CHR ''/'' \<notin> set n
         then Some n else None)"

definition listdir :: "string \<Rightarrow> file_system \<Rightarrow> string list" where
  "listdir d fs = remdups (List.map_filter (child_name d) (map fst fs))"

subsection \<open>Config Store: load_config, save_config\<close>

text \<open>
  \<open>load_config\<close> returns the dictionary, whether that dictionary is the object bound to
  the global \<open>config\<close> (an assignment to it is then seen through the global), and the
  world. A missing file leaves everything as it is and returns the global \<open>config\<close>; an
  exception prints and returns a new empty dictionary.
\<close>

definition load_config :: "world \<Rightarrow> config \<times> bool \<times> world" where
  "load_config w =
     (case config_file w of
        Missing \<Rightarrow> (global_config w, True, w)
      | Malformed \<Rightarrow> (empty_config, False, emit (Print Error_reading_config_file) w)
      | Json_object c \<Rightarrow>
          (c, True, w\<lparr>global_config := c, global_bot_token := bot_token c,
                       global_chat_id := chat_id c\<rparr>))"

text \<open>
  \<open>load_config\<close> for any file and any value bound to the global \<open>config\<close>. What
  \<open>json.load\<close> returns need not be a dictionary (it can be a list, a string, a number,
  a boolean or null): line 51 binds the global to it, line 52 raises \<open>AttributeError\<close>,
  and the handler prints and returns a new empty dictionary. The result is the value
  returned, whether it is the object bound to the global, the globals, and the lines
  printed. On the worlds above it is \<open>load_config\<close> (lemma \<open>load_config_any_agrees\<close>).
\<close>

datatype json_value = Dict config | Not_a_dict

datatype any_store = File_missing | File_raises | File_holds json_value

record config_globals =
  config_value :: json_value
  bot_token_value :: "string option"
  chat_id_value :: "string option"

definition load_config_any ::
  "any_store \<Rightarrow> config_globals \<Rightarrow> json_value \<times> bool \<times> config_globals \<times> msg list" where
  "load_config_any store g =
     (case store of
        File_missing \<Rightarrow> (config_value g, True, g, [])
      | File_raises \<Rightarrow> (Dict empty_config, False, g, [Error_reading_config_file])
      | File_holds (Dict c) \<Rightarrow>
          (Dict c, True,
           \<lparr>config_value = Dict c, bot_token_value = bot_token c, chat_id_value = chat_id c\<rparr>,
           [])
      | File_holds Not_a_dict \<Rightarrow>
          (Dict empty_config, False, g\<lparr>config_value := Not_a_dict\<rparr>,
           [Error_reading_config_file]))"

text \<open>bot.py, lines 59-68. \<open>open(CONFIG_FILE, 'w')\<close> truncates the file before
  \<open>json.dump\<close> writes: a failure after it leaves a file that does not parse.\<close>

definition save_config :: "config \<Rightarrow> world \<Rightarrow> bool \<times> world" where
  "save_config config_data w =
     (case config_write w of
        Written \<Rightarrow> (True, w\<lparr>config_file := Json_object config_data\<rparr>)
      | Cannot_open \<Rightarrow> (False, emit (Print Error_saving_config_file) w)
      | Failed_after_open n \<Rightarrow>
          (False, emit (Print Error_saving_config_file) (w\<lparr>config_file := Malformed\<rparr>)))"

text \<open>An item assignment \<open>config_data[k] = v\<close>: the new dictionary, also bound to the
  global when \<open>config_data\<close> is that object.\<close>

definition assign :: "bool \<Rightarrow> config \<Rightarrow> world \<Rightarrow> world" where
  "assign is_global config_data w = (if is_global then w\<lparr>global_config := config_data\<rparr> else w)"

subsection \<open>Backup Executor: check_backup_interval, send_to_telegram, run_backup_process\<close>

text \<open>
  What the outside answers during one run of \<open>run_backup_process\<close>: the instant
  \<open>time.time()\<close> returns, what \<open>subprocess.run([BACKUP_SCRIPT], check=True)\<close> does (it
  raises \<open>CalledProcessError\<close> on a non-zero exit, another exception when the script
  cannot be started, or returns the script's standard output, the script having left
  the file system in some state), and whether the upload succeeds.
\<close>

datatype script_outcome =
    CalledProcessError
  | Other_exception
  | Completed string file_system

record backup_env =
  clock :: real
  script :: script_outcome
  telegram_ok :: bool

text \<open>bot.py, lines 114-131. A value of \<open>last_backup\<close> that is absent or zero is falsy.\<close>

definition check_backup_interval :: "real \<Rightarrow> config \<Rightarrow> world \<Rightarrow> bool \<times> world" where
  "check_backup_interval now config_data w =
     (let hours_setting = (case min_interval_hours config_data of
                             None \<Rightarrow> MIN_INTERVAL_HOURS w | Some h \<Rightarrow> h)
      in case last_backup config_data of
           None \<Rightarrow> (True, w)
         | Some t \<Rightarrow>
             if t = 0 then (True, w)
             else
               let time_diff = now - t;
                   min_interval_seconds = real_of_int (hours_setting * 3600)
               in if time_diff < min_interval_seconds then
                    let remaining_time = min_interval_seconds - time_diff;
                        hours = \<lfloor>remaining_time / 3600\<rfloor>;
                        minutes = \<lfloor>(remaining_time - 3600 * real_of_int hours) / 60\<rfloor>
                    in (False, emit (Print (Time_remaining hours minutes))
                                 (emit (Print (Last_backup_was_less_than hours_setting)) w))
                  else (True, w))"

text \<open>main.py, lines 112-127: the same check against the global \<open>MIN_INTERVAL_HOURS\<close>
  alone.\<close>

definition check_backup_interval_main :: "real \<Rightarrow> config \<Rightarrow> world \<Rightarrow> bool \<times> world" where
  "check_backup_interval_main now config_data w =
     (case last_backup config_data of
        None \<Rightarrow> (True, w)
      | Some t \<Rightarrow>
          if t = 0 then (True, w)
          else
            let time_diff = now - t;
                min_interval = real_of_int (MIN_INTERVAL_HOURS w * 3600)
            in if time_diff < min_interval then
                 let remaining_time = min_interval - time_diff;
                     hours = \<lfloor>remaining_time / 3600\<rfloor>;
                     minutes = \<lfloor>(remaining_time - 3600 * real_of_int hours) / 60\<rfloor>
                 in (False, emit (Print (Time_remaining hours minutes))
                              (emit (Print (Last_backup_was_less_than (MIN_INTERVAL_HOURS w))) w))
               else (True, w))"

text \<open>bot.py, lines 76-112: every failure of the upload is caught and becomes \<open>False\<close>.\<close>

definition send_to_telegram :: "bool \<Rightarrow> string \<Rightarrow> string \<Rightarrow> string \<Rightarrow> world \<Rightarrow> bool \<times> world" where
  "send_to_telegram ok file_path token chat w =
     (let w1 = emit (Curl_send_document token chat file_path) w
      in if ok then (True, emit (Print Backup_sent_to_telegram) w1)
         else (False, emit (Print Error_sending_to_telegram) w1))"

text \<open>Lines 166-171: the first line of the output that starts with the key, after its
  first \<open>=\<close>.\<close>

definition backup_file_path_of :: "string \<Rightarrow> string option" where
  "backup_file_path_of stdout =
     (case List.find (\<lambda>line. startswith line ''BACKUP_FILE_PATH='')
             (split_sep (CHR 0x0A) stdout) of
        None \<Rightarrow> None
      | Some line \<Rightarrow> Some (tl (dropWhile (\<lambda>c. c \<noteq> CHR ''='') line)))"

text \<open>Lines 166-173: the artifact the script reports, when the path is not empty, exists
  and has a positive size; with its size.\<close>

definition produced_artifact :: "string \<Rightarrow> file_system \<Rightarrow> (string \<times> nat) option" where
  "produced_artifact stdout fs =
     (case backup_file_path_of stdout of
        None \<Rightarrow> None
      | Some backup_file_path \<Rightarrow>
          if backup_file_path \<noteq> [] \<and> path_exists backup_file_path fs then
            (case getsize backup_file_path fs of
               None \<Rightarrow> None
             | Some file_size \<Rightarrow> if 0 < file_size then Some (backup_file_path, file_size) else None)
          else None)"

text \<open>Lines 185-186 and 192-193: \<open>config_data['last_backup'] = time.time()\<close>, then
  \<open>save_config(config_data)\<close>, whose result is not looked at.\<close>

definition record_last_backup :: "real \<Rightarrow> bool \<Rightarrow> config \<Rightarrow> world \<Rightarrow> world" where
  "record_last_backup now is_global config_data w =
     (let config_data' = config_data\<lparr>last_backup := Some now\<rparr>
      in snd (save_config config_data' (assign is_global config_data' w)))"

text \<open>Lines 179-193, the body of the inner \<open>try\<close>.\<close>

definition upload_and_record :: "backup_env \<Rightarrow> bool \<Rightarrow> config \<Rightarrow> string \<Rightarrow> world \<Rightarrow> world" where
  "upload_and_record env is_global config_data backup_file_path w =
     (if truthy (bot_token config_data) \<and> truthy (chat_id config_data) then
        (case send_to_telegram (telegram_ok env) backup_file_path
                (str_opt (bot_token config_data)) (str_opt (chat_id config_data))
                (emit (Print Sending_file_to_telegram) w) of
           (sent, w1) \<Rightarrow>
             if sent then record_last_backup (clock env) is_global config_data w1
             else emit (Print Telegram_send_failed) w1)
      else record_last_backup (clock env) is_global config_data
             (emit (Print Telegram_settings_not_found) w))"

text \<open>Lines 194-201, the \<open>finally\<close>: the removal is tried, an \<open>OSError\<close> is printed.\<close>

definition delete_local_backup :: "string \<Rightarrow> world \<Rightarrow> world" where
  "delete_local_backup backup_file_path w =
     (let w1 = emit (Print (Deleting_local_backup_file backup_file_path)) w
      in case os_remove backup_file_path (files w1) of
           Some fs \<Rightarrow> emit (Print Local_backup_file_deleted) (w1\<lparr>files := fs\<rparr>)
         | None \<Rightarrow> emit (Print (Error_deleting_local_backup_file backup_file_path)) w1)"

text \<open>Lines 207-212, the loop over the listing. \<open>Inl\<close> is an exception that leaves the
  loop (a file that vanished or cannot be removed), with the world as it is then.\<close>

fun sweep :: "real \<Rightarrow> string list \<Rightarrow> world \<Rightarrow> world + world" where
  "sweep cutoff_time [] w = Inr w"
| "sweep cutoff_time (filename # rest) w =
     (if endswith filename ''.dump.gz'' then
        (let file_path = path_join BACKUP_DIR filename
         in case getmtime file_path (files w) of
              None \<Rightarrow> Inl w
            | Some m \<Rightarrow>
                if m < cutoff_time then
                  (case os_remove file_path (files w) of
                     None \<Rightarrow> Inl w
                   | Some fs \<Rightarrow>
                       sweep cutoff_time rest
                         (emit (Print (Deleted_old_file filename)) (w\<lparr>files := fs\<rparr>)))
                else sweep cutoff_time rest w)
      else sweep cutoff_time rest w)"

text \<open>Lines 203-214: the cutoff, the listing (which raises when the directory cannot be
  listed) and the loop.\<close>

definition delete_old_backups :: "real \<Rightarrow> world \<Rightarrow> world + world" where
  "delete_old_backups now w =
     (let w1 = emit (Print (Deleting_backups_older_than RETENTION_DAYS)) w;
          cutoff_time = now - real_of_int (RETENTION_DAYS * 86400)
      in if \<not> backup_dir_listable w1 then Inl w1
         else case sweep cutoff_time (listdir BACKUP_DIR (files w1)) w1 of
                Inl w2 \<Rightarrow> Inl w2
              | Inr w2 \<Rightarrow> Inr (emit (Print Old_backup_cleanup_completed) w2))"

text \<open>bot.py, lines 133-226. The lock is held for the whole body.\<close>

definition run_backup_process :: "backup_env \<Rightarrow> bool \<Rightarrow> world \<Rightarrow> bool \<times> world" where
  "run_backup_process env force w =
     (case load_config w of
        (config_data, is_global, w1) \<Rightarrow>
          (case (if force then (True, w1)
                 else check_backup_interval (clock env) config_data w1) of
             (False, w2) \<Rightarrow> (False, w2)
           | (True, w2) \<Rightarrow>
               (let w3 = emit Run_backup_script (emit (Print Starting_backup_process) w2)
                in case script env of
                     CalledProcessError \<Rightarrow>
                       (False, emit (Print Error_executing_backup_script) w3)
                   | Other_exception \<Rightarrow> (False, emit (Print Error_in_backup_process) w3)
                   | Completed stdout fs \<Rightarrow>
                       (let w4 = w3\<lparr>files := fs\<rparr>
                        in case produced_artifact stdout (files w4) of
                             None \<Rightarrow> (False, emit (Print Backup_file_not_created) w4)
                           | Some (backup_file_path, file_size) \<Rightarrow>
                               (let w5 = emit (Print (Backup_created backup_file_path file_size)) w4;
                                    w6 = upload_and_record env is_global config_data
                                           backup_file_path w5;
                                    w7 = delete_local_backup backup_file_path w6
                                in case delete_old_backups (clock env) w7 of
                                     Inr w8 \<Rightarrow> (True, w8)
                                   | Inl w8 \<Rightarrow>
                                       (False, emit (Print Error_in_backup_process) w8))))))"

text \<open>bot.py, lines 388-394: the body of the thread the \<open>/backup\<close> command starts.\<close>

definition run_backup_and_notify :: "backup_env \<Rightarrow> int \<Rightarrow> world \<Rightarrow> world" where
  "run_backup_and_notify env chat w =
     (case run_backup_process env True w of
        (success, w1) \<Rightarrow>
          if \<not> success then emit (Send_message chat backup_error_msg) w1 else w1)"

subsection \<open>Restore Workflow: run_restore_process\<close>

text \<open>
  The restore process as the reads see it: each \<open>process.stdout.read(1000)\<close> returns some
  text (at most 1000 characters, empty at the end of the stream) together with whether
  \<open>process.poll()\<close> then reports that the process has exited, or raises. A list that
  runs out stands for a process that never exits.
\<close>

datatype read_result = Read string bool | Read_raises

record restore_process =
  reads :: "read_result list"
  stderr_output :: string
  returncode :: int

datatype loop_result = Loop_done string world | Loop_raised world | Loop_hangs

text \<open>bot.py, lines 242-256 (main.py, lines 237-248): the \<open>while True\<close> loop. The flush
  threshold is 3500 in bot.py and 4000 in main.py.\<close>

fun read_output_loop :: "nat \<Rightarrow> int \<Rightarrow> read_result list \<Rightarrow> string \<Rightarrow> world \<Rightarrow> loop_result" where
  "read_output_loop limit chat [] output_buffer w = Loop_hangs"
| "read_output_loop limit chat (Read_raises # rs) output_buffer w = Loop_raised w"
| "read_output_loop limit chat (Read output exited # rs) output_buffer w =
     (if output = [] \<and> exited then Loop_done output_buffer w
      else if output \<noteq> [] then
        (let buffer = output_buffer @ output
         in if limit \<le> length buffer then
              read_output_loop limit chat rs (drop limit buffer)
                (emit (Send_message chat (Code_block (take limit buffer))) w)
            else read_output_loop limit chat rs buffer w)
      else read_output_loop limit chat rs output_buffer w)"

text \<open>The handler of an exception in \<open>run_restore_process\<close> (bot.py, lines 294-302).\<close>

definition restore_failed :: "string \<Rightarrow> int \<Rightarrow> world \<Rightarrow> world" where
  "restore_failed file_path chat w =
     (let w1 = emit (Send_message chat restore_exception_msg) w
      in case os_remove file_path (files w1) of
           Some fs \<Rightarrow> w1\<lparr>files := fs\<rparr>
         | None \<Rightarrow> w1)"

text \<open>\<open>run_restore_process\<close> for a flush threshold; \<open>None\<close> when the loop never ends.\<close>

definition run_restore_process_at ::
  "nat \<Rightarrow> restore_process \<Rightarrow> string \<Rightarrow> int \<Rightarrow> world \<Rightarrow> world option" where
  "run_restore_process_at limit process file_path chat w =
     (case read_output_loop limit chat (reads process) []
             (emit (Popen_restore_script file_path) w) of
        Loop_hangs \<Rightarrow> None
      | Loop_raised w1 \<Rightarrow> Some (restore_failed file_path chat w1)
      | Loop_done output_buffer w1 \<Rightarrow>
          (let w2 = (if output_buffer \<noteq> []
                     then emit (Send_message chat (Code_block output_buffer)) w1 else w1);
               w3 = (if stderr_output process \<noteq> []
                     then emit (Send_message chat (Stderr_block (stderr_output process))) w2
                     else w2);
               w4 = (if returncode process = 0
                     then emit (Send_message chat restore_success_msg) w3
                     else emit (Send_message chat (restore_error_msg (returncode process))) w3)
           in Some (case os_remove file_path (files w4) of
                      Some fs \<Rightarrow> emit (Print (Temporary_file_deleted file_path)) (w4\<lparr>files := fs\<rparr>)
                    | None \<Rightarrow> emit (Print Error_deleting_temporary_file) w4)))"


text \<open>main.py, lines 224-279.\<close>

definition run_restore_process_main :: "restore_process \<Rightarrow> string \<Rightarrow> int \<Rightarrow> world \<Rightarrow> world option" where
  "run_restore_process_main = run_restore_process_at 4000"

text \<open>The payloads of the code-block messages among some effects, in order.\<close>

fun code_blocks :: "effect list \<Rightarrow> string list" where
  "code_blocks [] = []"
| "code_blocks (Send_message chat (Code_block s) # es) = s # code_blocks es"
| "code_blocks (e # es) = code_blocks es"

subsection \<open>Command Router: the handlers registered in main\<close>

record message =
  m_chat_id :: int
  m_text :: pystr

record tg_document =
  file_id :: string
  file_name :: string

text \<open>The test every handler starts with: \<open>str(message.chat.id) != str(chat_id)\<close>.\<close>

definition unauthorized :: "message \<Rightarrow> world \<Rightarrow> bool" where
  "unauthorized message w = (str (m_chat_id message) \<noteq> str_opt (global_chat_id w))"

text \<open>bot.py, lines 370-396.\<close>

definition handle_backup_command :: "message \<Rightarrow> world \<Rightarrow> world" where
  "handle_backup_command message w =
     (if unauthorized message w then emit (Reply_to (m_chat_id message) unauthorized_msg) w
      else emit (Thread_start (run_backup_and_notify_thread (m_chat_id message)))
             (emit (Reply_to (m_chat_id message) start_msg) w))"

text \<open>bot.py, lines 398-432.\<close>

definition handle_status_command :: "real \<Rightarrow> message \<Rightarrow> world \<Rightarrow> world" where
  "handle_status_command now message w =
     (if unauthorized message w then emit (Reply_to (m_chat_id message) unauthorized_msg) w
      else
        (case load_config w of
           (config_data, is_global, w1) \<Rightarrow>
             (let min_interval = (case min_interval_hours config_data of
                                    None \<Rightarrow> MIN_INTERVAL_HOURS w1 | Some h \<Rightarrow> h);
                  last = (case last_backup config_data of
                            None \<Rightarrow> None
                          | Some t \<Rightarrow>
                              if t = 0 then None
                              else
                                (let time_diff = now - t;
                                     hours = \<lfloor>time_diff / 3600\<rfloor>;
                                     minutes = \<lfloor>(time_diff - 3600 * real_of_int hours) / 60\<rfloor>
                                 in Some (t, hours, minutes)))
              in emit (Reply_to (m_chat_id message)
                         (status_msg last min_interval POLL_INTERVAL_HOURS)) w1)))"

text \<open>bot.py, lines 434-476. The \<open>ValueError\<close> of \<open>int\<close> (line 454) is not caught: it
  leaves the handler.\<close>

definition handle_time_command :: "message \<Rightarrow> world \<Rightarrow> world + world" where
  "handle_time_command message w =
     (if unauthorized message w then
        Inr (emit (Reply_to (m_chat_id message) unauthorized_msg) w)
      else
        (let parts = split (m_text message)
         in if length parts < 2 \<or> \<not> isdigit (parts ! 1) then
              Inr (emit (Reply_to (m_chat_id message) help_msg) w)
            else
              (case int_of_digits (parts ! 1) of
                 None \<Rightarrow> Inl w
               | Some new_interval \<Rightarrow>
                   if new_interval \<le> 0 then
                     Inr (emit (Reply_to (m_chat_id message) value_error_msg) w)
                   else
                     (case load_config w of
                        (config_data, is_global, w1) \<Rightarrow>
                          (let config_data' = config_data\<lparr>min_interval_hours := Some new_interval\<rparr>
                           in case save_config config_data' (assign is_global config_data' w1) of
                                (True, w2) \<Rightarrow>
                                  Inr (emit (Reply_to (m_chat_id message) (success_msg new_interval))
                                         (w2\<lparr>MIN_INTERVAL_HOURS := new_interval\<rparr>))
                              | (False, w2) \<Rightarrow>
                                  Inr (emit (Reply_to (m_chat_id message) save_error_msg) w2))))))"

text \<open>bot.py, lines 478-503.\<close>

definition handle_restore_command :: "message \<Rightarrow> world \<Rightarrow> world" where
  "handle_restore_command message w =
     (if unauthorized message w then emit (Reply_to (m_chat_id message) unauthorized_msg) w
      else emit (Reply_to (m_chat_id message) guide_msg)
             (w\<lparr>user_states := (user_states w)(m_chat_id message \<mapsto> waiting_restore)\<rparr>))"

text \<open>bot.py, lines 505-526.\<close>

definition handle_cancel_command :: "message \<Rightarrow> world \<Rightarrow> world" where
  "handle_cancel_command message w =
     (if unauthorized message w then emit (Reply_to (m_chat_id message) unauthorized_msg) w
      else if user_states w (m_chat_id message) = Some waiting_restore then
        emit (Reply_to (m_chat_id message) cancel_msg)
          (w\<lparr>user_states := (user_states w)(m_chat_id message \<mapsto> py_None)\<rparr>)
      else emit (Reply_to (m_chat_id message) no_operation_msg) w)"

text \<open>
  What the outside answers while a document is handled: the bytes \<open>bot.download_file\<close>
  returns (\<open>None\<close> when it raises), what opening and writing the local file does, the
  instant of the write, whether the \<open>reply_to\<close> that acknowledges the file returns, and
  whether the restore thread can be started.
\<close>

record download_env =
  download :: "string option"
  write_result :: write_outcome
  write_time :: real
  reply_succeeds :: bool
  thread_starts :: bool

text \<open>bot.py, lines 528-586. The \<open>try\<close> of lines 556-583 holds the download, the write,
  the reset of the state, the acknowledging reply and the start of the thread; an
  exception in any of them is answered with the download error.\<close>

definition handle_document :: "download_env \<Rightarrow> message \<Rightarrow> tg_document \<Rightarrow> world \<Rightarrow> world" where
  "handle_document env message doc w =
     (if unauthorized message w then w
      else if user_states w (m_chat_id message) \<noteq> Some waiting_restore then w
      else
        (let w1 = emit (Get_file (file_id doc)) w
         in if \<not> (endswith (file_name doc) ''.bak'' \<or> endswith (file_name doc) ''.dump.gz'') then
              emit (Reply_to (m_chat_id message) invalid_format_msg) w1
            else
              (let w2 = emit (Download_file (file_id doc)) w1
               in case download env of
                    None \<Rightarrow> emit (Reply_to (m_chat_id message) download_error_msg) w2
                  | Some downloaded_file \<Rightarrow>
                      (let file_path = path_join TEMP_DIR (file_name doc)
                       in case write_result env of
                            Cannot_open \<Rightarrow>
                              emit (Reply_to (m_chat_id message) download_error_msg) w2
                          | Failed_after_open n \<Rightarrow>
                              emit (Reply_to (m_chat_id message) download_error_msg)
                                (w2\<lparr>files := write_file file_path
                                    \<lparr>contents = take n downloaded_file,
                                     st_mtime = write_time env, deletable = True\<rparr> (files w2)\<rparr>)
                          | Written \<Rightarrow>
                              (let w3 = w2\<lparr>files := write_file file_path
                                           \<lparr>contents = downloaded_file, st_mtime = write_time env,
                                            deletable = True\<rparr> (files w2)\<rparr>;
                                   w4 = w3\<lparr>user_states :=
                                           (user_states w3)(m_chat_id message \<mapsto> py_None)\<rparr>
                               in if \<not> reply_succeeds env then
                                    emit (Reply_to (m_chat_id message) download_error_msg) w4
                                  else
                                    (let w5 = emit (Reply_to (m_chat_id message)
                                                (start_restore_msg (file_name doc)
                                                   (length downloaded_file))) w4
                                     in if \<not> thread_starts env then
                                          emit (Reply_to (m_chat_id message) download_error_msg) w5
                                        else
                                          emit (Thread_start
                                                 (run_restore_process_thread file_path
                                                    (m_chat_id message))) w5))))))"

text \<open>main.py, lines 435-476: the same without the \<open>try\<close>; \<open>Inl\<close> is the exception that
  leaves the handler.\<close>

definition handle_document_main ::
  "download_env \<Rightarrow> message \<Rightarrow> tg_document \<Rightarrow> world \<Rightarrow> world + world" where
  "handle_document_main env message doc w =
     (if unauthorized message w then Inr w
      else if user_states w (m_chat_id message) \<noteq> Some waiting_restore then Inr w
      else
        (let w1 = emit (Get_file (file_id doc)) w
         in if \<not> (endswith (file_name doc) ''.bak'' \<or> endswith (file_name doc) ''.dump.gz'') then
              Inr (emit (Reply_to (m_chat_id message) invalid_format_msg) w1)
            else
              (let w2 = emit (Download_file (file_id doc)) w1
               in case download env of
                    None \<Rightarrow> Inl w2
                  | Some downloaded_file \<Rightarrow>
                      (let file_path = path_join TEMP_DIR (file_name doc)
                       in case write_result env of
                            Cannot_open \<Rightarrow> Inl w2
                          | Failed_after_open n \<Rightarrow>
                              Inl (w2\<lparr>files := write_file file_path
                                     \<lparr>contents = take n downloaded_file,
                                      st_mtime = write_time env, deletable = True\<rparr> (files w2)\<rparr>)
                          | Written \<Rightarrow>
                              (let w3 = w2\<lparr>files := write_file file_path
                                           \<lparr>contents = downloaded_file, st_mtime = write_time env,
                                            deletable = True\<rparr> (files w2)\<rparr>;
                                   w4 = w3\<lparr>user_states :=
                                           (user_states w3)(m_chat_id message \<mapsto> py_None)\<rparr>
                               in if \<not> reply_succeeds env then Inl w4
                                  else
                                    (let w5 = emit (Reply_to (m_chat_id message)
                                                (start_restore_msg (file_name doc)
                                                   (length downloaded_file))) w4
                                     in if \<not> thread_starts env then Inl w5
                                        else
                                          Inr (emit (Thread_start
                                                 (run_restore_process_thread file_path
                                                    (m_chat_id message))) w5)))))))"

section \<open>Notions used in the statements\<close>

text \<open>The interval check of an unforced run fails: the run is throttled.\<close>

definition throttled :: "backup_env \<Rightarrow> world \<Rightarrow> bool" where
  "throttled env w =
     (case load_config w of
        (config_data, is_global, w1) \<Rightarrow>
          \<not> fst (check_backup_interval (clock env) config_data w1))"




text \<open>How many times the backup script has been invoked.\<close>

definition script_runs :: "world \<Rightarrow> nat" where
  "script_runs w = length (filter (\<lambda>e. e = Run_backup_script) (effects w))"

text \<open>The world a step leaves, whether it returned or raised.\<close>

definition world_of :: "world + world \<Rightarrow> world" where
  "world_of r = (case r of Inl w \<Rightarrow> w | Inr w \<Rightarrow> w)"

text \<open>The restore session of a chat: waiting for a file exactly when the dictionary
  holds \<open>'waiting_restore'\<close> for it.\<close>

datatype session = Idle | WaitingForFile

definition session_of :: "world \<Rightarrow> int \<Rightarrow> session" where
  "session_of w chat = (if user_states w chat = Some waiting_restore then WaitingForFile else Idle)"

text \<open>Line 546: the file name ends in one of the two accepted suffixes.\<close>

definition valid_suffix :: "string \<Rightarrow> bool" where
  "valid_suffix name = (endswith name ''.bak'' \<or> endswith name ''.dump.gz'')"

text \<open>How many restore threads have been started.\<close>

fun is_restore_start :: "effect \<Rightarrow> bool" where
  "is_restore_start (Thread_start (run_restore_process_thread file_path chat)) = True"
| "is_restore_start e = False"

definition restore_invocations :: "world \<Rightarrow> nat" where
  "restore_invocations w = length (filter is_restore_start (effects w))"


text \<open>The world a handler leaves, whether it returned or an exception left it, is
  \<open>world_of\<close>. The state of the module before any load (lines 40-42), the file and the
  globals of a world as \<open>load_config_any\<close> takes them.\<close>

definition initial_globals :: config_globals where
  "initial_globals =
     \<lparr>config_value = Dict empty_config, bot_token_value = None, chat_id_value = None\<rparr>"

definition store_of :: "config_store \<Rightarrow> any_store" where
  "store_of store =
     (case store of
        Missing \<Rightarrow> File_missing
      | Malformed \<Rightarrow> File_raises
      | Json_object c \<Rightarrow> File_holds (Dict c))"

definition globals_of :: "world \<Rightarrow> config_globals" where
  "globals_of w =
     \<lparr>config_value = Dict (global_config w), bot_token_value = global_bot_token w,
      chat_id_value = global_chat_id w\<rparr>"

text \<open>The Python \<open>str\<close> of an ASCII text.\<close>

definition ascii :: "string \<Rightarrow> pystr" where
  "ascii s = map Ascii s"

text \<open>The text a list of reads delivers, and a read that returns at most 1000
  characters and does not end the loop.\<close>

fun read_text :: "read_result \<Rightarrow> string" where
  "read_text (Read output exited) = output"
| "read_text Read_raises = []"

definition stream_text :: "read_result list \<Rightarrow> string" where
  "stream_text rs = concat (map read_text rs)"

fun continuing_read :: "read_result \<Rightarrow> bool" where
  "continuing_read (Read output exited) = (length output \<le> 1000 \<and> \<not> (output = [] \<and> exited))"
| "continuing_read Read_raises = False"

text \<open>The world after the code-block messages \<open>ps\<close> have been sent to a chat.\<close>

definition flushed :: "int \<Rightarrow> string list \<Rightarrow> world \<Rightarrow> world" where
  "flushed chat ps w = w\<lparr>effects := effects w @ map (\<lambda>p. Send_message chat (Code_block p)) ps\<rparr>"

section \<open>Example worlds\<close>

definition old_dump :: fs_entry where
  "old_dump = \<lparr>contents = ''old'', st_mtime = 1699000000, deletable = True\<rparr>"

definition new_dump :: "bool \<Rightarrow> fs_entry" where
  "new_dump removable = \<lparr>contents = ''dump'', st_mtime = 1700010000, deletable = removable\<rparr>"

definition example_config :: config where
  "example_config = \<lparr>bot_token = Some ''123:abc'', chat_id = Some ''42'',
                      last_backup = Some 1700000000, min_interval_hours = Some 2\<rparr>"

definition example_world :: world where
  "example_world =
     \<lparr>config_file = Json_object example_config, config_write = Written,
      global_config = example_config, global_bot_token = Some ''123:abc'',
      global_chat_id = Some ''42'', MIN_INTERVAL_HOURS = 2, user_states = Map.empty,
      files = [(''/tmp/ibsng_backup_files/old.dump.gz'', old_dump)],
      backup_dir_listable = True, effects = []\<rparr>"

definition epoch_config :: config where
  "epoch_config = \<lparr>bot_token = Some ''123:abc'', chat_id = Some ''42'',
                    last_backup = Some 0, min_interval_hours = Some 500000\<rparr>"

definition epoch_world :: world where
  "epoch_world = example_world\<lparr>config_file := Json_object epoch_config\<rparr>"

definition readonly_world :: world where
  "readonly_world = example_world\<lparr>config_write := Cannot_open\<rparr>"

definition full_disk_world :: world where
  "full_disk_world = example_world\<lparr>config_write := Failed_after_open 0\<rparr>"

definition failing_script_env :: "real \<Rightarrow> backup_env" where
  "failing_script_env now = \<lparr>clock = now, script = CalledProcessError, telegram_ok = True\<rparr>"

definition working_env :: "bool \<Rightarrow> bool \<Rightarrow> backup_env" where
  "working_env upload_ok removable =
     \<lparr>clock = 1700010000,
      script = Completed
        (''Creating backup'' @ [CHR 0x0A] @
         ''BACKUP_FILE_PATH=/tmp/ibsng_backup_files/new.dump.gz'' @ [CHR 0x0A])
        [(''/tmp/ibsng_backup_files/new.dump.gz'', new_dump removable),
         (''/tmp/ibsng_backup_files/old.dump.gz'', old_dump)],
      telegram_ok = upload_ok\<rparr>"

definition waiting_world :: world where
  "waiting_world = example_world\<lparr>user_states := [42 \<mapsto> waiting_restore]\<rparr>"

definition offline_world :: world where
  "offline_world = example_world\<lparr>config_file := Missing\<rparr>"

definition owner_message :: "string \<Rightarrow> message" where
  "owner_message t = \<lparr>m_chat_id = 42, m_text = ascii t\<rparr>"

definition stranger_message :: "string \<Rightarrow> message" where
  "stranger_message t = \<lparr>m_chat_id = 7, m_text = ascii t\<rparr>"

definition backup_document :: "string \<Rightarrow> tg_document" where
  "backup_document name = \<lparr>file_id = ''file-1'', file_name = name\<rparr>"

definition good_download :: download_env where
  "good_download =
     \<lparr>download = Some ''bytes'', write_result = Written, write_time = 1700010000,
      reply_succeeds = True, thread_starts = True\<rparr>"

definition failed_download :: download_env where
  "failed_download =
     \<lparr>download = None, write_result = Written, write_time = 1700010000,
      reply_succeeds = True, thread_starts = True\<rparr>"

definition unacknowledged_download :: download_env where
  "unacknowledged_download = good_download\<lparr>reply_succeeds := False\<rparr>"

definition superscript_message :: message where
  "superscript_message =
     \<lparr>m_chat_id = 42, m_text = ascii ''/time '' @ [Beyond 178 Other_digit]\<rparr>"


section \<open>Lemmas\<close>

lemma world_of_simps [simp]: "world_of (Inl w) = w" "world_of (Inr w) = w"
  by (simp_all add: world_of_def)

lemma emit_fields [simp]:
  "files (emit e w) = files w"
  "config_file (emit e w) = config_file w"
  "config_write (emit e w) = config_write w"
  "global_config (emit e w) = global_config w"
  "global_bot_token (emit e w) = global_bot_token w"
  "global_chat_id (emit e w) = global_chat_id w"
  "MIN_INTERVAL_HOURS (emit e w) = MIN_INTERVAL_HOURS w"
  "user_states (emit e w) = user_states w"
  "backup_dir_listable (emit e w) = backup_dir_listable w"
  "effects (emit e w) = effects w @ [e]"
  by (simp_all add: emit_def)

lemma script_runs_emit:
  "script_runs (emit e w) = (if e = Run_backup_script then Suc (script_runs w) else script_runs w)"
  by (simp add: script_runs_def emit_def)

lemma script_runs_update [simp]:
  "script_runs (w\<lparr>files := fs\<rparr>) = script_runs w"
  "script_runs (w\<lparr>config_file := cf\<rparr>) = script_runs w"
  "script_runs (w\<lparr>global_config := gc\<rparr>) = script_runs w"
  "script_runs (w\<lparr>global_bot_token := bt\<rparr>) = script_runs w"
  "script_runs (w\<lparr>global_chat_id := ci\<rparr>) = script_runs w"
  by (simp_all add: script_runs_def)


lemma script_runs_check:
  "script_runs (snd (check_backup_interval now c w)) = script_runs w"
  by (simp add: check_backup_interval_def script_runs_emit Let_def split: option.splits)














lemma sweep_shrinks:
  "map_of (files w) q = None \<Longrightarrow> map_of (files (world_of (sweep cutoff names w))) q = None"
  by (induction cutoff names w rule: sweep.induct)
     (auto simp: Let_def os_remove_def delete_conv split: option.splits if_splits)


lemma check_passes_world:
  "fst (check_backup_interval now c w) \<Longrightarrow> check_backup_interval now c w = (True, w)"
  by (simp add: check_backup_interval_def Let_def split: option.splits if_splits)

lemma run_backup_process_produced:
  assumes "force \<or> \<not> throttled env w"
    and "script env = Completed stdout fs"
    and "produced_artifact stdout fs = Some (p, n)"
    and "load_config w = (c, g, w1)"
  shows "run_backup_process env force w =
     (case delete_old_backups (clock env)
             (delete_local_backup p
               (upload_and_record env g c p
                 (emit (Print (Backup_created p n))
                   ((emit Run_backup_script (emit (Print Starting_backup_process) w1))
                      \<lparr>files := fs\<rparr>)))) of
        Inr w8 \<Rightarrow> (True, w8)
      | Inl w8 \<Rightarrow> (False, emit (Print Error_in_backup_process) w8))"
proof -
  have "(if force then (True, w1) else check_backup_interval (clock env) c w1) = (True, w1)"
    using assms(1,4) by (auto simp: throttled_def dest: check_passes_world)
  then show ?thesis
    using assms(2,3,4) by (simp add: run_backup_process_def Let_def)
qed

lemma save_config_frame [simp]:
  "files (snd (save_config c w)) = files w"
  "config_write (snd (save_config c w)) = config_write w"
  "backup_dir_listable (snd (save_config c w)) = backup_dir_listable w"
  by (simp_all add: save_config_def split: write_outcome.splits)

lemma assign_frame [simp]:
  "files (assign g c w) = files w"
  "config_write (assign g c w) = config_write w"
  "backup_dir_listable (assign g c w) = backup_dir_listable w"
  "config_file (assign g c w) = config_file w"
  by (simp_all add: assign_def)

lemma record_last_backup_frame [simp]:
  "files (record_last_backup now g c w) = files w"
  "config_write (record_last_backup now g c w) = config_write w"
  "backup_dir_listable (record_last_backup now g c w) = backup_dir_listable w"
  by (simp_all add: record_last_backup_def Let_def)

lemma upload_and_record_frame [simp]:
  "files (upload_and_record env g c p w) = files w"
  "config_write (upload_and_record env g c p w) = config_write w"
  "backup_dir_listable (upload_and_record env g c p w) = backup_dir_listable w"
  by (simp_all add: upload_and_record_def send_to_telegram_def Let_def)

lemma load_config_frame [simp]:
  "files (snd (snd (load_config w))) = files w"
  "config_write (snd (snd (load_config w))) = config_write w"
  "backup_dir_listable (snd (snd (load_config w))) = backup_dir_listable w"
  "config_file (snd (snd (load_config w))) = config_file w"
  by (simp_all add: load_config_def split: config_store.splits)

lemma delete_local_backup_frame [simp]:
  "config_write (delete_local_backup p w) = config_write w"
  "backup_dir_listable (delete_local_backup p w) = backup_dir_listable w"
  "config_file (delete_local_backup p w) = config_file w"
  by (simp_all add: delete_local_backup_def Let_def split: option.splits)

lemma files_delete_local_backup:
  "map_of (files (delete_local_backup p w)) q =
     (if q = p \<and> (\<exists>f. map_of (files w) p = Some f \<and> deletable f) then None
      else map_of (files w) q)"
  by (auto simp: delete_local_backup_def os_remove_def Let_def delete_conv split: option.splits)



lemma delete_old_backups_shrinks:
  assumes "map_of (files w) q = None"
  shows "map_of (files (world_of (delete_old_backups now w))) q = None"
proof -
  let ?w1 = "emit (Print (Deleting_backups_older_than RETENTION_DAYS)) w"
  let ?r = "sweep (now - real_of_int (RETENTION_DAYS * 86400)) (listdir BACKUP_DIR (files ?w1)) ?w1"
  have "map_of (files (world_of ?r)) q = None"
    using assms by (intro sweep_shrinks) simp
  then show ?thesis
    using assms by (cases ?r) (simp_all add: delete_old_backups_def Let_def)
qed


lemma run_backup_process_world_of:
  assumes "force \<or> \<not> throttled env w"
    and "script env = Completed stdout fs"
    and "produced_artifact stdout fs = Some (p, n)"
  shows "\<exists>w7. files w7 = files (delete_local_backup p (snd (snd (load_config w))\<lparr>files := fs\<rparr>)) \<and>
           backup_dir_listable w7 = backup_dir_listable w \<and>
           run_backup_process env force w =
             (case delete_old_backups (clock env) w7 of
                Inr w8 \<Rightarrow> (True, w8)
              | Inl w8 \<Rightarrow> (False, emit (Print Error_in_backup_process) w8))"
proof -
  obtain c g w1 where l: "load_config w = (c, g, w1)" by (cases "load_config w") auto
  have w1: "backup_dir_listable w1 = backup_dir_listable w"
    using load_config_frame(3) [of w] l by simp
  let ?w7 = "delete_local_backup p
               (upload_and_record env g c p
                 (emit (Print (Backup_created p n))
                   ((emit Run_backup_script (emit (Print Starting_backup_process) w1))
                      \<lparr>files := fs\<rparr>)))"
  have "files ?w7 = files (delete_local_backup p (w1\<lparr>files := fs\<rparr>))"
    by (simp add: delete_local_backup_def os_remove_def Let_def split: option.splits)
  moreover have "backup_dir_listable ?w7 = backup_dir_listable w"
    by (simp add: w1)
  ultimately show ?thesis
    using run_backup_process_produced [OF assms l] l by auto
qed





lemmas run_defs = run_backup_process_def load_config_def check_backup_interval_def
  produced_artifact_def backup_file_path_of_def split_sep_def startswith_def endswith_def
  path_exists_def getsize_def getmtime_def upload_and_record_def send_to_telegram_def
  record_last_backup_def save_config_def assign_def delete_local_backup_def os_remove_def
  delete_old_backups_def listdir_def child_name_def map_filter_def path_join_def
  BACKUP_DIR_def RETENTION_DAYS_def truthy_def str_opt_def emit_def Let_def

lemmas example_defs = example_world_def example_config_def working_env_def new_dump_def
  old_dump_def failing_script_env_def readonly_world_def epoch_world_def epoch_config_def
  full_disk_world_def

lemma session_of_cases:
  "session_of w chat = WaitingForFile \<longleftrightarrow> user_states w chat = Some waiting_restore"
  "session_of w chat = Idle \<longleftrightarrow> user_states w chat \<noteq> Some waiting_restore"
  by (simp_all add: session_of_def)

lemma restore_invocations_emit:
  "restore_invocations (emit e w) =
     (if is_restore_start e then Suc (restore_invocations w) else restore_invocations w)"
  by (simp add: restore_invocations_def)

lemma restore_invocations_update [simp]:
  "restore_invocations (w\<lparr>files := fs\<rparr>) = restore_invocations w"
  "restore_invocations (w\<lparr>user_states := us\<rparr>) = restore_invocations w"
  by (simp_all add: restore_invocations_def)

lemmas handler_defs = handle_backup_command_def handle_status_command_def
  handle_time_command_def handle_restore_command_def handle_cancel_command_def
  handle_document_def handle_document_main_def unauthorized_def str_def str_opt_def
  session_of_def valid_suffix_def restore_invocations_def endswith_def emit_def
  load_config_def save_config_def assign_def Let_def

lemmas handler_example_defs = waiting_world_def owner_message_def stranger_message_def
  backup_document_def good_download_def failed_download_def offline_world_def
  example_world_def example_config_def old_dump_def readonly_world_def
  full_disk_world_def unacknowledged_download_def superscript_message_def ascii_def




lemma load_config_any_agrees:
  "load_config_any (store_of (config_file w)) (globals_of w) =
     (case load_config w of
        (c, is_global, w') \<Rightarrow>
          (Dict c, is_global, globals_of w',
           if config_file w = Malformed then [Error_reading_config_file] else []))"
  by (simp add: load_config_any_def load_config_def store_of_def globals_of_def emit_def
      split: config_store.splits)

lemma split_at_append:
  "split_at sep cur (a @ sep # b) = split_at sep cur a @ split_at sep [] b"
proof (induction a arbitrary: cur)
  case Nil
  show ?case by simp
next
  case (Cons c a)
  show ?case
  proof (cases "c = sep")
    case True
    then show ?thesis using Cons.IH [of "[]"] by simp
  next
    case False
    then show ?thesis using Cons.IH [of "cur @ [c]"] by simp
  qed
qed

lemma split_at_last: "split_at sep cur a \<noteq> []"
  by (induction a arbitrary: cur) auto

lemma resolve_components_append:
  "resolve_components stack (xs @ ys) = resolve_components (resolve_components stack xs) ys"
  by (induction xs arbitrary: stack) auto

lemma location_TEMP_DIR: "location TEMP_DIR = [''tmp'', ''ibsng_restore'']"
  by (simp add: location_def TEMP_DIR_def split_sep_def)

lemma path_join_TEMP_DIR:
  "path_join TEMP_DIR name =
     (if startswith name ''/'' then name else TEMP_DIR @ CHR ''/'' # name)"
  by (simp add: path_join_def TEMP_DIR_def endswith_def)

lemma location_under_TEMP_DIR:
  "location (TEMP_DIR @ CHR ''/'' # name) =
     resolve_components [''tmp'', ''ibsng_restore''] (split_sep (CHR ''/'') name)"
  using location_TEMP_DIR
  by (simp add: location_def split_sep_def split_at_append resolve_components_append)

lemma length_concat_equal:
  "\<forall>p\<in>set ps. length p = n \<Longrightarrow> length (concat ps) = length ps * n"
  by (induction ps) auto

lemma flushed_Nil: "flushed chat [] w = w"
  by (simp add: flushed_def)

lemma flushed_Cons:
  "flushed chat ps (emit (Send_message chat (Code_block p)) w) = flushed chat (p # ps) w"
  by (simp add: flushed_def emit_def)

lemma read_output_loop_flushes:
  assumes "0 < limit"
    and "list_all (\<lambda>r. continuing_read r \<and> length (read_text r) \<le> limit) rs"
    and "length buffer < limit"
  shows "\<exists>ps rest_buffer.
           read_output_loop limit chat (rs @ Read [] True # more_reads) buffer w =
             Loop_done rest_buffer (flushed chat ps w) \<and>
           concat ps @ rest_buffer = buffer @ stream_text rs \<and>
           (\<forall>p\<in>set ps. length p = limit) \<and> length rest_buffer < limit"
  using assms(2,3)
proof (induction rs arbitrary: buffer w)
  case Nil
  have "read_output_loop limit chat ([] @ Read [] True # more_reads) buffer w =
      Loop_done buffer (flushed chat [] w) \<and>
      concat [] @ buffer = buffer @ stream_text [] \<and>
      (\<forall>p\<in>set ([]::string list). length p = limit) \<and> length buffer < limit"
    using Nil.prems(2) by (simp add: flushed_Nil stream_text_def)
  then show ?case by (intro exI)
next
  case (Cons r rs)
  from Cons.prems(1) obtain chunk exited where r: "r = Read chunk exited"
    and small: "length chunk \<le> limit" and go: "\<not> (chunk = [] \<and> exited)"
    by (cases r) auto
  from Cons.prems(1) have rest: "list_all (\<lambda>r. continuing_read r \<and> length (read_text r) \<le> limit) rs"
    by simp
  have whole: "stream_text (r # rs) = chunk @ stream_text rs"
    by (simp add: stream_text_def r)
  show ?case
  proof (cases "chunk = []")
    case True
    with go have step: "read_output_loop limit chat ((r # rs) @ Read [] True # more_reads) buffer w =
        read_output_loop limit chat (rs @ Read [] True # more_reads) buffer w"
      by (simp add: r)
    from Cons.IH [OF rest Cons.prems(2), of w] obtain ps rest_buffer where
      "read_output_loop limit chat (rs @ Read [] True # more_reads) buffer w =
         Loop_done rest_buffer (flushed chat ps w)"
      "concat ps @ rest_buffer = buffer @ stream_text rs"
      "\<forall>p\<in>set ps. length p = limit" "length rest_buffer < limit"
      by blast
    then have "read_output_loop limit chat ((r # rs) @ Read [] True # more_reads) buffer w =
         Loop_done rest_buffer (flushed chat ps w) \<and>
      concat ps @ rest_buffer = buffer @ stream_text (r # rs) \<and>
      (\<forall>p\<in>set ps. length p = limit) \<and> length rest_buffer < limit"
      by (simp only: step whole True append_Nil)
    then show ?thesis by (intro exI)
  next
    case False
    show ?thesis
    proof (cases "limit \<le> length (buffer @ chunk)")
      case full: True
      let ?p = "take limit (buffer @ chunk)"
      let ?w = "emit (Send_message chat (Code_block ?p)) w"
      have step: "read_output_loop limit chat ((r # rs) @ Read [] True # more_reads) buffer w =
          read_output_loop limit chat (rs @ Read [] True # more_reads)
            (drop limit (buffer @ chunk)) ?w"
        using False full by (simp add: r Let_def)
      have short: "length (drop limit (buffer @ chunk)) < limit"
        using small Cons.prems(2) by simp
      from Cons.IH [OF rest short, of ?w] obtain ps rest_buffer where
        loop: "read_output_loop limit chat (rs @ Read [] True # more_reads)
                 (drop limit (buffer @ chunk)) ?w =
               Loop_done rest_buffer (flushed chat ps ?w)"
        and joined: "concat ps @ rest_buffer = drop limit (buffer @ chunk) @ stream_text rs"
        and sizes: "\<forall>p\<in>set ps. length p = limit" and rem: "length rest_buffer < limit"
        by blast
      have a: "read_output_loop limit chat ((r # rs) @ Read [] True # more_reads) buffer w =
          Loop_done rest_buffer (flushed chat (?p # ps) w)"
        by (simp only: step loop flushed_Cons)
      have "concat (?p # ps) @ rest_buffer = ?p @ (concat ps @ rest_buffer)"
        by simp
      also have "\<dots> = ?p @ drop limit (buffer @ chunk) @ stream_text rs"
        by (simp only: joined)
      also have "\<dots> = (?p @ drop limit (buffer @ chunk)) @ stream_text rs"
        by simp
      also have "\<dots> = (buffer @ chunk) @ stream_text rs"
        by (simp only: append_take_drop_id)
      finally have b: "concat (?p # ps) @ rest_buffer = buffer @ stream_text (r # rs)"
        by (simp add: whole)
      have "length ?p = limit" using full by simp
      with sizes have c: "\<forall>p\<in>set (?p # ps). length p = limit" by simp
      from a b c rem show ?thesis by blast
    next
      case part: False
      have step: "read_output_loop limit chat ((r # rs) @ Read [] True # more_reads) buffer w =
          read_output_loop limit chat (rs @ Read [] True # more_reads) (buffer @ chunk) w"
        using False part by (simp add: r Let_def)
      have short: "length (buffer @ chunk) < limit" using part by simp
      from Cons.IH [OF rest short, of w] obtain ps rest_buffer where
        "read_output_loop limit chat (rs @ Read [] True # more_reads) (buffer @ chunk) w =
           Loop_done rest_buffer (flushed chat ps w)"
        "concat ps @ rest_buffer = (buffer @ chunk) @ stream_text rs"
        "\<forall>p\<in>set ps. length p = limit" "length rest_buffer < limit"
        by blast
      then have "read_output_loop limit chat ((r # rs) @ Read [] True # more_reads) buffer w =
           Loop_done rest_buffer (flushed chat ps w) \<and>
        concat ps @ rest_buffer = buffer @ stream_text (r # rs) \<and>
        (\<forall>p\<in>set ps. length p = limit) \<and> length rest_buffer < limit"
        by (simp only: step whole) simp
      then show ?thesis by (intro exI)
    qed
  qed
qed

lemma list_all_continuing:
  "1000 \<le> limit \<Longrightarrow> list_all continuing_read rs \<Longrightarrow>
   list_all (\<lambda>r. continuing_read r \<and> length (read_text r) \<le> limit) rs"
proof (induction rs)
  case Nil
  show ?case by simp
next
  case (Cons r rs)
  then show ?case by (cases r) auto
qed

lemma two_full_chunks:
  assumes "concat ps @ rest_buffer = s" and "\<forall>p\<in>set ps. length p = limit"
    and "length rest_buffer < limit" and "length s = 2 * limit + r" and "r < limit"
  shows "ps = [take limit s, take limit (drop limit s)] \<and> rest_buffer = drop (2 * limit) s"
proof -
  have total: "length ps * limit + length rest_buffer = 2 * limit + r"
    using assms(1,2,4) length_concat_equal [of ps limit] by (metis length_append)
  have "length ps = 2"
  proof (cases ps)
    case Nil
    with total assms(3) show ?thesis by simp
  next
    case (Cons p1 qs)
    note one = this
    show ?thesis
    proof (cases qs)
      case Nil
      with one total assms(3) show ?thesis by simp
    next
      case (Cons p2 qs')
      note two = this
      show ?thesis
      proof (cases qs')
        case Nil
        with one two show ?thesis by simp
      next
        case (Cons p3 qs'')
        with one two total assms(5) show ?thesis by simp
      qed
    qed
  qed
  then obtain p1 p2 where ps: "ps = [p1, p2]"
    by (metis One_nat_def Suc_1 length_0_conv length_Suc_conv)
  with assms(2) have l: "length p1 = limit" "length p2 = limit" by simp_all
  from assms(1) ps have s: "s = p1 @ p2 @ rest_buffer" by simp
  have d: "drop (2 * limit) s = drop limit (drop limit s)" by (simp add: mult_2)
  show ?thesis unfolding d by (simp add: ps s l)
qed

lemma run_restore_process_at_three_messages:
  assumes "0 < r" and "r < limit" and "1000 \<le> limit"
    and "reads process = rs @ Read [] True # more_reads"
    and "list_all continuing_read rs"
    and "stream_text rs = s" and "length s = 2 * limit + r"
  shows "\<exists>w' tail. run_restore_process_at limit process file_path chat w = Some w' \<and>
           effects w' = effects w @
             [Popen_restore_script file_path,
              Send_message chat (Code_block (take limit s)),
              Send_message chat (Code_block (take limit (drop limit s))),
              Send_message chat (Code_block (drop (2 * limit) s))] @ tail \<and>
           code_blocks tail = []"
proof -
  let ?w0 = "emit (Popen_restore_script file_path) w"
  have pos: "0 < limit" using assms(3) by simp
  have rs: "list_all (\<lambda>r. continuing_read r \<and> length (read_text r) \<le> limit) rs"
    using assms(3,5) by (rule list_all_continuing)
  have "length ([]::string) < limit" using pos by simp
  from read_output_loop_flushes [OF pos rs this, of chat more_reads ?w0]
  obtain ps rest_buffer where
    loop: "read_output_loop limit chat (rs @ Read [] True # more_reads) [] ?w0 =
             Loop_done rest_buffer (flushed chat ps ?w0)"
    and joined: "concat ps @ rest_buffer = [] @ stream_text rs"
    and sizes: "\<forall>p\<in>set ps. length p = limit" and short: "length rest_buffer < limit"
    by blast
  from joined assms(6) have "concat ps @ rest_buffer = s" by simp
  from two_full_chunks [OF this sizes short assms(7,2)]
  have ps: "ps = [take limit s, take limit (drop limit s)]"
    and rb: "rest_buffer = drop (2 * limit) s" by simp_all
  have ne: "rest_buffer \<noteq> []" using rb assms(1,7) by auto
  let ?w2 = "emit (Send_message chat (Code_block rest_buffer)) (flushed chat ps ?w0)"
  let ?w3 = "if stderr_output process \<noteq> []
             then emit (Send_message chat (Stderr_block (stderr_output process))) ?w2 else ?w2"
  let ?w4 = "if returncode process = 0 then emit (Send_message chat restore_success_msg) ?w3
             else emit (Send_message chat (restore_error_msg (returncode process))) ?w3"
  let ?w5 = "case os_remove file_path (files ?w4) of
               Some fs \<Rightarrow> emit (Print (Temporary_file_deleted file_path)) (?w4\<lparr>files := fs\<rparr>)
             | None \<Rightarrow> emit (Print Error_deleting_temporary_file) ?w4"
  let ?tail = "(if stderr_output process \<noteq> []
                then [Send_message chat (Stderr_block (stderr_output process))] else []) @
               [if returncode process = 0 then Send_message chat restore_success_msg
                else Send_message chat (restore_error_msg (returncode process))] @
               [case os_remove file_path (files ?w4) of
                  Some fs \<Rightarrow> Print (Temporary_file_deleted file_path)
                | None \<Rightarrow> Print Error_deleting_temporary_file]"
  have run: "run_restore_process_at limit process file_path chat w = Some ?w5"
    using ne by (simp add: run_restore_process_at_def assms(4) loop Let_def)
  have eff: "effects ?w5 = effects w @
             [Popen_restore_script file_path,
              Send_message chat (Code_block (take limit s)),
              Send_message chat (Code_block (take limit (drop limit s))),
              Send_message chat (Code_block (drop (2 * limit) s))] @ ?tail"
    by (simp add: flushed_def ps rb [symmetric] emit_def split: option.splits)
  have "code_blocks ?tail = []"
    by (simp split: option.splits)
  with run eff show ?thesis by blast
qed

lemma main_py_flushes_at_4000:
  assumes "reads process = rs @ Read [] True # more_reads"
    and "list_all continuing_read rs"
    and "stream_text rs = s" and "length s = 9000"
  shows "\<exists>w' tail. run_restore_process_main process file_path chat w = Some w' \<and>
           effects w' = effects w @
             [Popen_restore_script file_path,
              Send_message chat (Code_block (take 4000 s)),
              Send_message chat (Code_block (take 4000 (drop 4000 s))),
              Send_message chat (Code_block (drop 8000 s))] @ tail \<and>
           code_blocks tail = []"
proof -
  have "length s = 2 * 4000 + 1000" using assms(4) by simp
  from run_restore_process_at_three_messages [OF _ _ _ assms(1,2,3) this, of file_path chat w]
  show ?thesis by (simp add: run_restore_process_main_def)
qed

lemma sweep_keeps_undeletable:
  "map_of (files w) q = Some f \<Longrightarrow> \<not> deletable f \<Longrightarrow>
   map_of (files (world_of (sweep cutoff names w))) q = Some f"
proof (induction names arbitrary: w)
  case Nil
  then show ?case by simp
next
  case (Cons n rest)
  let ?P = "path_join BACKUP_DIR n"
  let ?w = "emit (Print (Deleted_old_file n)) (w\<lparr>files := AList.delete ?P (files w)\<rparr>)"
  have keep: "map_of (files (world_of (sweep cutoff rest w))) q = Some f"
    using Cons.prems by (rule Cons.IH)
  have gone: "map_of (files (world_of (sweep cutoff rest ?w))) q = Some f"
    if "map_of (files w) ?P = Some g" "deletable g" for g
  proof (rule Cons.IH)
    from that Cons.prems have "q \<noteq> ?P" by auto
    with Cons.prems(1) show "map_of (files ?w) q = Some f" by (simp add: delete_conv)
    show "\<not> deletable f" by (rule Cons.prems(2))
  qed
  show ?case
    using keep gone Cons.prems(1)
    by (auto simp: Let_def os_remove_def getmtime_def split: option.splits)
qed

lemma delete_old_backups_keeps_undeletable:
  assumes "map_of (files w) q = Some f" and "\<not> deletable f"
  shows "map_of (files (world_of (delete_old_backups now w))) q = Some f"
proof -
  let ?w1 = "emit (Print (Deleting_backups_older_than RETENTION_DAYS)) w"
  let ?r = "sweep (now - real_of_int (RETENTION_DAYS * 86400)) (listdir BACKUP_DIR (files ?w1)) ?w1"
  have "map_of (files (world_of ?r)) q = Some f"
    using assms by (intro sweep_keeps_undeletable) simp_all
  then show ?thesis
    using assms by (cases ?r) (simp_all add: delete_old_backups_def Let_def)
qed




section \<open>The claims\<close>

subsection \<open>C1: throttling and forced runs\<close>




subsection \<open>C2: the retention sweep\<close>




subsection \<open>C3: when the last-backup timestamp is persisted\<close>




subsection \<open>C4: the local artifact is removed\<close>

text \<open>
  Claim C4, as amended. In a backup execution that produced a valid artifact, when
  \<open>os.remove\<close> does not fail on the artifact, the artifact file no longer exists when
  the execution returns: whether the upload succeeded, failed or was not attempted,
  and whether the sweep that follows completes or raises. When \<open>os.remove\<close> fails on
  it, the file is still there when the execution returns.
\<close>

theorem local_artifact_removed:
  assumes "force \<or> \<not> throttled env w"
    and "script env = Completed stdout fs"
    and "produced_artifact stdout fs = Some (p, n)"
    and "map_of fs p = Some f"
  shows "path_exists p (files (snd (run_backup_process env force w))) \<longleftrightarrow> \<not> deletable f"
proof -
  from run_backup_process_world_of [OF assms(1-3)]
  obtain w7 where f7: "files w7 = files (delete_local_backup p (snd (snd (load_config w))\<lparr>files := fs\<rparr>))"
    and run: "run_backup_process env force w =
             (case delete_old_backups (clock env) w7 of
                Inr w8 \<Rightarrow> (True, w8)
              | Inl w8 \<Rightarrow> (False, emit (Print Error_in_backup_process) w8))"
    by blast
  have after: "files (snd (run_backup_process env force w)) =
      files (world_of (delete_old_backups (clock env) w7))"
    by (cases "delete_old_backups (clock env) w7") (simp_all add: run)
  show ?thesis
  proof (cases "deletable f")
    case True
    then have "map_of (files w7) p = None"
      using assms(4) by (simp add: f7 files_delete_local_backup)
    then have "map_of (files (world_of (delete_old_backups (clock env) w7))) p = None"
      by (rule delete_old_backups_shrinks)
    with True show ?thesis by (simp add: after path_exists_def)
  next
    case False
    then have "map_of (files w7) p = Some f"
      using assms(4) by (simp add: f7 files_delete_local_backup)
    then have "map_of (files (world_of (delete_old_backups (clock env) w7))) p = Some f"
      using False by (rule delete_old_backups_keeps_undeletable)
    with False show ?thesis by (simp add: after path_exists_def)
  qed
qed

text \<open>The theorem at a forced run whose upload fails.\<close>

theorem local_artifact_removed_witness:
  "\<not> path_exists ''/tmp/ibsng_backup_files/new.dump.gz''
       (files (snd (run_backup_process (working_env False True) True example_world)))"
  using local_artifact_removed [of True "working_env False True" example_world
      "''Creating backup'' @ [CHR 0x0A] @
         ''BACKUP_FILE_PATH=/tmp/ibsng_backup_files/new.dump.gz'' @ [CHR 0x0A]"
      "[(''/tmp/ibsng_backup_files/new.dump.gz'', new_dump True),
         (''/tmp/ibsng_backup_files/old.dump.gz'', old_dump)]"
      "''/tmp/ibsng_backup_files/new.dump.gz''" 4 "new_dump True"]
  by (simp add: working_env_def produced_artifact_def backup_file_path_of_def split_sep_def
      startswith_def path_exists_def getsize_def new_dump_def)

text \<open>
  C4 as stated fails when the removal itself fails: lines 196-201 catch the
  \<open>OSError\<close> and print it, and the artifact is still there when the run returns
  \<open>True\<close>.
\<close>

theorem local_artifact_stays_when_removal_fails:
  "produced_artifact
     (''Creating backup'' @ [CHR 0x0A] @
      ''BACKUP_FILE_PATH=/tmp/ibsng_backup_files/new.dump.gz'' @ [CHR 0x0A])
     [(''/tmp/ibsng_backup_files/new.dump.gz'', new_dump False),
      (''/tmp/ibsng_backup_files/old.dump.gz'', old_dump)] =
     Some (''/tmp/ibsng_backup_files/new.dump.gz'', 4) \<and>
   fst (run_backup_process (working_env True False) True example_world) \<and>
   path_exists ''/tmp/ibsng_backup_files/new.dump.gz''
     (files (snd (run_backup_process (working_env True False) True example_world)))"
  by (simp add: run_defs example_defs)

subsection \<open>C5: the restore session\<close>




subsection \<open>C6: the output of a restore is sent in chunks\<close>



subsection \<open>C7: senders other than the configured chat\<close>

text \<open>
  Claim C7, as amended. For a message whose chat identifier differs from the configured
  one, each of the five command handlers replies with the authorization-denied message
  and does nothing else, and the document handler does nothing at all, not even reply:
  no session state, file, configuration or global changes, and no thread or process is
  started.
\<close>

theorem unauthorized_sender_changes_nothing:
  assumes "unauthorized message w"
  shows "handle_backup_command message w = emit (Reply_to (m_chat_id message) unauthorized_msg) w \<and>
    handle_status_command now message w = emit (Reply_to (m_chat_id message) unauthorized_msg) w \<and>
    handle_time_command message w =
      Inr (emit (Reply_to (m_chat_id message) unauthorized_msg) w) \<and>
    handle_restore_command message w = emit (Reply_to (m_chat_id message) unauthorized_msg) w \<and>
    handle_cancel_command message w = emit (Reply_to (m_chat_id message) unauthorized_msg) w \<and>
    handle_document env message doc w = w \<and>
    handle_document_main env message doc w = Inr w"
  using assms
  by (simp add: handle_backup_command_def handle_status_command_def handle_time_command_def
      handle_restore_command_def handle_cancel_command_def handle_document_def
      handle_document_main_def)

text \<open>The theorem at a message from chat 7 when chat 42 is configured.\<close>

theorem unauthorized_sender_changes_nothing_witness:
  "handle_time_command (stranger_message ''/time 8'') example_world =
     Inr (example_world\<lparr>effects := [Reply_to 7 unauthorized_msg]\<rparr>) \<and>
   handle_restore_command (stranger_message ''/restore'') example_world =
     example_world\<lparr>effects := [Reply_to 7 unauthorized_msg]\<rparr> \<and>
   handle_document good_download (stranger_message []) (backup_document ''db.bak'')
     waiting_world = waiting_world"
  using unauthorized_sender_changes_nothing [of "stranger_message ''/time 8''" example_world 0 good_download "backup_document ''db.bak''"]
    unauthorized_sender_changes_nothing [of "stranger_message ''/restore''" example_world 0 good_download "backup_document ''db.bak''"]
    unauthorized_sender_changes_nothing [of "stranger_message []" waiting_world 0 good_download "backup_document ''db.bak''"]
  by (simp add: unauthorized_def str_def str_opt_def emit_def handler_example_defs)

text \<open>
  C7 as stated fails for documents: lines 533-535 return without a reply, so a
  document from another chat produces no effect at all.
\<close>

theorem unauthorized_document_gets_no_reply:
  "unauthorized (stranger_message []) waiting_world \<and>
   effects (handle_document good_download (stranger_message []) (backup_document ''db.bak'')
     waiting_world) = effects waiting_world"
  by (simp add: handler_defs handler_example_defs)

subsection \<open>C8: loading a missing or malformed configuration\<close>

text \<open>
  Claim C8, as amended. \<open>load_config\<close> never raises. When reading or parsing the file
  raises, it prints the error line and returns a new empty dictionary, leaving the
  globals as they are. When the file parses to a JSON value that is not an object, it
  prints the error line and returns a new empty dictionary as well, but the global
  \<open>config\<close> is left bound to that value. When the file is missing it prints nothing and
  returns whatever is bound to the global \<open>config\<close> at that moment: that is the empty
  dictionary exactly when the global is bound to it, as it is when the module starts,
  and after a file has been parsed it is the value parsed then, object or not.
\<close>

theorem load_config_missing_or_malformed:
  "load_config_any File_raises g = (Dict empty_config, False, g, [Error_reading_config_file]) \<and>
   load_config_any (File_holds Not_a_dict) g =
     (Dict empty_config, False, g\<lparr>config_value := Not_a_dict\<rparr>, [Error_reading_config_file]) \<and>
   load_config_any File_missing g = (config_value g, True, g, []) \<and>
   (fst (load_config_any File_missing g) = Dict empty_config \<longleftrightarrow>
      config_value g = Dict empty_config) \<and>
   fst (load_config_any File_missing initial_globals) = Dict empty_config \<and>
   fst (load_config_any File_missing (fst (snd (snd (load_config_any (File_holds v) g))))) = v \<and>
   (config_file w = Malformed \<longrightarrow>
      load_config w = (empty_config, False, emit (Print Error_reading_config_file) w)) \<and>
   (config_file w = Missing \<longrightarrow> load_config w = (global_config w, True, w))"
  by (cases v) (simp_all add: load_config_any_def load_config_def initial_globals_def)

text \<open>The theorem at a malformed and at a missing file, and at the globals a load of the
  example configuration leaves.\<close>

theorem load_config_missing_or_malformed_witness:
  "load_config (example_world\<lparr>config_file := Malformed\<rparr>) =
     (empty_config, False,
      example_world\<lparr>config_file := Malformed, effects := [Print Error_reading_config_file]\<rparr>) \<and>
   load_config offline_world = (example_config, True, offline_world) \<and>
   fst (load_config_any File_missing
     (fst (snd (snd (load_config_any (File_holds (Dict example_config)) initial_globals))))) =
     Dict example_config"
  using load_config_missing_or_malformed [of initial_globals "Dict example_config" "example_world\<lparr>config_file := Malformed\<rparr>"]
    load_config_missing_or_malformed [of initial_globals "Dict example_config" offline_world]
  by (simp add: emit_def handler_example_defs)

text \<open>
  C8 as stated fails for a missing file: after a successful load the file is removed,
  and \<open>load_config\<close> returns the settings loaded before, without printing anything.
\<close>

theorem missing_file_returns_cached_settings:
  "config_file offline_world = Missing \<and>
   fst (load_config offline_world) = example_config \<and>
   example_config \<noteq> empty_config \<and>
   effects (snd (snd (load_config offline_world))) = effects offline_world"
  by (simp add: load_config_def handler_example_defs empty_config_def)

subsection \<open>C9: the /time command\<close>




subsection \<open>C10: where a restore document is written\<close>

text \<open>
  Claim C10, as amended. An accepted restore document whose download and write succeed
  is written at \<open>os.path.join(TEMP_DIR, file_name)\<close> with the name as sent, replacing
  whatever was at that path, so a second upload of the same name overwrites the first;
  main.py writes the same files, and does the same altogether when the reply and the
  start of the thread succeed. A name that starts with the separator is the path itself; any
  other name is appended to the temporary directory and its components, \<open>..\<close> included,
  are resolved from there. So \<open>../evil.bak\<close> and \<open>/etc/cron.d/evil.bak\<close> denote locations
  outside the temporary directory, while \<open>db.bak\<close> and \<open>sub/db.bak\<close> denote locations
  under it.
\<close>

theorem restore_file_path_is_unsanitized:
  assumes "\<not> unauthorized message w"
    and "user_states w (m_chat_id message) = Some waiting_restore"
    and "valid_suffix (file_name doc)"
    and "download env = Some bytes" and "write_result env = Written"
  shows
    "files (handle_document env message doc w) =
       write_file (path_join TEMP_DIR (file_name doc))
         \<lparr>contents = bytes, st_mtime = write_time env, deletable = True\<rparr> (files w) \<and>
     map_of (files (handle_document env message doc w)) (path_join TEMP_DIR (file_name doc)) =
       Some \<lparr>contents = bytes, st_mtime = write_time env, deletable = True\<rparr> \<and>
     files (world_of (handle_document_main env message doc w)) =
       files (handle_document env message doc w) \<and>
     (reply_succeeds env \<and> thread_starts env \<longrightarrow>
        handle_document_main env message doc w = Inr (handle_document env message doc w)) \<and>
     (startswith (file_name doc) ''/'' \<longrightarrow>
        path_join TEMP_DIR (file_name doc) = file_name doc) \<and>
     (\<not> startswith (file_name doc) ''/'' \<longrightarrow>
        path_join TEMP_DIR (file_name doc) = TEMP_DIR @ ''/'' @ file_name doc \<and>
        location (path_join TEMP_DIR (file_name doc)) =
          resolve_components (location TEMP_DIR) (split_sep (CHR ''/'') (file_name doc))) \<and>
     \<not> under_temp_dir (path_join TEMP_DIR ''../evil.bak'') \<and>
     \<not> under_temp_dir (path_join TEMP_DIR ''/etc/cron.d/evil.bak'') \<and>
     under_temp_dir (path_join TEMP_DIR ''db.bak'') \<and>
     under_temp_dir (path_join TEMP_DIR ''sub/db.bak'')"
proof -
  have written: "files (handle_document env message doc w) =
      write_file (path_join TEMP_DIR (file_name doc))
        \<lparr>contents = bytes, st_mtime = write_time env, deletable = True\<rparr> (files w)"
    using assms by (simp add: handle_document_def valid_suffix_def Let_def)
  have main: "files (world_of (handle_document_main env message doc w)) =
      files (handle_document env message doc w)"
    "reply_succeeds env \<and> thread_starts env \<longrightarrow>
       handle_document_main env message doc w = Inr (handle_document env message doc w)"
    using assms
    by (simp_all add: handle_document_def handle_document_main_def valid_suffix_def Let_def)
  have examples: "\<not> under_temp_dir (path_join TEMP_DIR ''../evil.bak'')"
    "\<not> under_temp_dir (path_join TEMP_DIR ''/etc/cron.d/evil.bak'')"
    "under_temp_dir (path_join TEMP_DIR ''db.bak'')"
    "under_temp_dir (path_join TEMP_DIR ''sub/db.bak'')"
    by (simp_all add: under_temp_dir_def path_join_def startswith_def endswith_def
        TEMP_DIR_def location_def split_sep_def)
  show ?thesis
    using examples main
    by (simp add: written write_file_def update_conv path_join_TEMP_DIR
        location_under_TEMP_DIR location_TEMP_DIR)
qed

text \<open>The theorem at the name \<open>../evil.bak\<close>, which is written to \<open>/tmp/evil.bak\<close>.\<close>

theorem restore_file_path_is_unsanitized_witness:
  "map_of (files (handle_document good_download (owner_message [])
       (backup_document ''../evil.bak'') waiting_world)) ''/tmp/ibsng_restore/../evil.bak'' =
     Some \<lparr>contents = ''bytes'', st_mtime = 1700010000, deletable = True\<rparr> \<and>
   location ''/tmp/ibsng_restore/../evil.bak'' = [''tmp'', ''evil.bak'']"
  using restore_file_path_is_unsanitized [of "owner_message []" waiting_world "backup_document ''../evil.bak''"
      good_download "''bytes''"]
  by (simp add: unauthorized_def str_def str_opt_def valid_suffix_def endswith_def
      path_join_def startswith_def TEMP_DIR_def location_def split_sep_def write_file_def
      handler_example_defs)

text \<open>
  C10 as stated fails for a name with a separator and no \<open>..\<close>: \<open>sub/db.bak\<close> contains the
  separator and denotes a location under the temporary directory.
\<close>

theorem separator_can_stay_inside_temp_dir:
  "CHR ''/'' \<in> set ''sub/db.bak'' \<and> valid_suffix ''sub/db.bak'' \<and>
   path_join TEMP_DIR ''sub/db.bak'' = ''/tmp/ibsng_restore/sub/db.bak'' \<and>
   location (path_join TEMP_DIR ''sub/db.bak'') = [''tmp'', ''ibsng_restore'', ''sub'', ''db.bak''] \<and>
   under_temp_dir (path_join TEMP_DIR ''sub/db.bak'')"
  by (simp add: valid_suffix_def endswith_def path_join_def startswith_def
      under_temp_dir_def TEMP_DIR_def location_def split_sep_def)

end
